theory Spec2Isabelle
  imports Complex_Main "HOL-Library.AList"
begin

text \<open>
  The support pipeline: mail is fetched for a window of hours, each message is classified
  by a language model and appended to a store of records, and a summary of the store is
  posted to a chat webhook. This theory embeds the functions of \<open>orchestrator.py\<close> and
  the \<open>run_pipeline\<close> route of \<open>app.py\<close> and proves how failures are contained, what
  the classifier and the summary compute, and where the window is checked.
  The logging of \<open>app.py\<close> has no part in the results and is left out. Every print of
  the pipeline runner, the record store and the notifier is modelled (\<open>io_print\<close>): most
  of them show a pictograph, and they raise on a standard output that cannot encode it.
  The prints of the mail source and of the classifier, whose literals are plain ASCII,
  are left out.
\<close>

section \<open>Text\<close>

text \<open>
  A Python \<open>str\<close> is modelled as a \<open>string\<close>, one \<open>char\<close> per code point, for the
  code points below 256. The symbols beyond that range that occur in the program's own
  message literals are written as their UTF-8 bytes. \<open>is_space\<close> is the whitespace class
  shared by \<open>str.strip()\<close> and by \<open>\s\<close> of the \<open>re\<close> module on that range.
\<close>

definition newline :: char where
  "newline = CHR 0x0A"

definition is_space :: "char \<Rightarrow> bool" where
  "is_space c =
     (let n = (of_char c :: nat)
      in (9 \<le> n \<and> n \<le> 13) \<or> (28 \<le> n \<and> n \<le> 32) \<or> n = 133 \<or> n = 160)"

definition lower_char :: "char \<Rightarrow> char" where
  "lower_char c =
     (let n = (of_char c :: nat)
      in if (65 \<le> n \<and> n \<le> 90) \<or> (192 \<le> n \<and> n \<le> 222 \<and> n \<noteq> 215)
         then char_of (n + 32) else c)"

definition lower :: "string \<Rightarrow> string" where
  "lower s = map lower_char s"

definition strip :: "string \<Rightarrow> string" where
  "strip s = rev (dropWhile is_space (rev (dropWhile is_space s)))"

text \<open>\<open>x or default\<close> on a string: the empty string is falsy.\<close>

definition or_default :: "string \<Rightarrow> string \<Rightarrow> string" where
  "or_default s d = (if s = [] then d else s)"

text \<open>An environment variable is absent or a string; absent and empty are both falsy.\<close>

definition truthy :: "string option \<Rightarrow> bool" where
  "truthy v = (case v of None \<Rightarrow> False | Some s \<Rightarrow> s \<noteq> [])"

fun str_nat :: "nat \<Rightarrow> string" where
  "str_nat n =
     (if n < 10 then [char_of (48 + n)]
      else str_nat (n div 10) @ [char_of (48 + n mod 10)])"

declare str_nat.simps [simp del]

definition str_int :: "int \<Rightarrow> string" where
  "str_int i = (if i < 0 then CHR ''-'' # str_nat (nat (- i)) else str_nat (nat i))"

definition join :: "string \<Rightarrow> string list \<Rightarrow> string" where
  "join sep xs = (case xs of [] \<Rightarrow> [] | y # ys \<Rightarrow> y @ concat (map (\<lambda>z. sep @ z) ys))"

subsection \<open>The symbols of the messages\<close>

text \<open>
  The pictographs, the bullet and the arrow of the program's messages, as UTF-8 bytes:
  bar chart, bullet, red circle, check mark, rocket, e-mail, cross mark, robot, rightwards
  arrow, warning sign.
\<close>

definition chart_mark :: string where
  "chart_mark = [CHR 0xF0, CHR 0x9F, CHR 0x93, CHR 0x8A]"

definition bullet_mark :: string where
  "bullet_mark = [CHR 0xE2, CHR 0x80, CHR 0xA2]"

definition red_mark :: string where
  "red_mark = [CHR 0xF0, CHR 0x9F, CHR 0x94, CHR 0xB4]"

definition check_mark :: string where
  "check_mark = [CHR 0xE2, CHR 0x9C, CHR 0x85]"

definition rocket_mark :: string where
  "rocket_mark = [CHR 0xF0, CHR 0x9F, CHR 0x9A, CHR 0x80]"

definition mail_mark :: string where
  "mail_mark = [CHR 0xF0, CHR 0x9F, CHR 0x93, CHR 0xA7]"

definition cross_mark :: string where
  "cross_mark = [CHR 0xE2, CHR 0x9D, CHR 0x8C]"

definition robot_mark :: string where
  "robot_mark = [CHR 0xF0, CHR 0x9F, CHR 0xA4, CHR 0x96]"

definition arrow_mark :: string where
  "arrow_mark = [CHR 0xE2, CHR 0x86, CHR 0x92]"

definition warning_mark :: string where
  "warning_mark = [CHR 0xE2, CHR 0x9A, CHR 0xA0, CHR 0xEF, CHR 0xB8, CHR 0x8F]"

definition ascii_only :: "string \<Rightarrow> bool" where
  "ascii_only s = list_all (\<lambda>c. (of_char c :: nat) < 128) s"

subsection \<open>The pattern \<open>Label:\s*(.+)\<close> under \<open>re.IGNORECASE\<close>\<close>

text \<open>
  \<open>re.search(r'Label:\s*(.+)', text, re.IGNORECASE)\<close>: the leftmost position where the
  label matches without regard to case, followed by a greedy run of whitespace and a
  non-empty greedy run of characters other than the newline. The run of whitespace gives
  characters back when the rest cannot match otherwise. The result is group 1.
\<close>

definition dot_plus :: "string \<Rightarrow> string option" where
  "dot_plus s =
     (let g = takeWhile (\<lambda>c. c \<noteq> newline) s in if g = [] then None else Some g)"

fun spaces_dot_plus :: "string \<Rightarrow> string option" where
  "spaces_dot_plus [] = None"
| "spaces_dot_plus (c # cs) =
     (if is_space c
      then (case spaces_dot_plus cs of Some g \<Rightarrow> Some g | None \<Rightarrow> dot_plus (c # cs))
      else dot_plus (c # cs))"

fun match_literal :: "string \<Rightarrow> string \<Rightarrow> string option" where
  "match_literal [] s = Some s"
| "match_literal (p # ps) [] = None"
| "match_literal (p # ps) (c # cs) =
     (if lower_char c = lower_char p then match_literal ps cs else None)"

definition match_here :: "string \<Rightarrow> string \<Rightarrow> string option" where
  "match_here label s =
     (case match_literal label s of None \<Rightarrow> None | Some rest \<Rightarrow> spaces_dot_plus rest)"

fun re_search :: "string \<Rightarrow> string \<Rightarrow> string option" where
  "re_search label [] = match_here label []"
| "re_search label (c # cs) =
     (case match_here label (c # cs) of
        Some g \<Rightarrow> Some g
      | None \<Rightarrow> re_search label cs)"

section \<open>Exceptions and external calls\<close>

text \<open>
  \<open>exn\<close> stands for the instances of \<open>Exception\<close>; the string is \<open>str(e)\<close>.
\<close>

datatype exn =
    HttpError string
  | FileNotFoundError string
  | ValueError string
  | OverflowError string
  | AttributeError string
  | UnicodeEncodeError string
  | Exception string

fun str_exn :: "exn \<Rightarrow> string" where
  "str_exn (HttpError m) = m"
| "str_exn (FileNotFoundError m) = m"
| "str_exn (ValueError m) = m"
| "str_exn (OverflowError m) = m"
| "str_exn (AttributeError m) = m"
| "str_exn (UnicodeEncodeError m) = m"
| "str_exn (Exception m) = m"

text \<open>
  Every call that leaves the process is recorded, with its arguments, in a log of events.
  What the outside world answers may depend on everything that was called before, so each
  external operation of the environment reads the log so far. A computation takes the log
  and returns its outcome, a raised exception (\<open>Inl\<close>) or a value (\<open>Inr\<close>), with the
  log extended by the calls it made.
\<close>

record page_properties =
  prop_title :: string
  prop_description :: string
  prop_root_cause :: string
  prop_priority :: string
  prop_status :: string
  prop_date :: string

datatype event =
    TokenLoad
  | TokenRefresh
  | AuthFlow
  | TokenWrite
  | GmailBuild
  | GmailList string
  | GmailGet string
  | ChatCompletion string
  | NotionCreate string page_properties
  | NotionQuery string
  | SlackPost string string

type_synonym 'a io = "event list \<Rightarrow> (exn + 'a) \<times> event list"

definition io_return :: "'a \<Rightarrow> 'a io" where
  "io_return x tr = (Inr x, tr)"

definition io_raise :: "exn \<Rightarrow> 'a io" where
  "io_raise e tr = (Inl e, tr)"

definition io_bind :: "'a io \<Rightarrow> ('a \<Rightarrow> 'b io) \<Rightarrow> 'b io" where
  "io_bind m f tr =
     (case m tr of (Inl e, tr') \<Rightarrow> (Inl e, tr') | (Inr x, tr') \<Rightarrow> f x tr')"

text \<open>\<open>try: m except Exception as e: h e\<close>\<close>

definition io_try :: "'a io \<Rightarrow> (exn \<Rightarrow> 'a io) \<Rightarrow> 'a io" where
  "io_try m h tr =
     (case m tr of (Inl e, tr') \<Rightarrow> h e tr' | (Inr x, tr') \<Rightarrow> (Inr x, tr'))"

text \<open>The outcome of a \<open>try\<close> block as a value, for a handler that returns from the function.\<close>

definition io_catch :: "'a io \<Rightarrow> (exn + 'a) io" where
  "io_catch m tr = (case m tr of (r, tr') \<Rightarrow> (Inr r, tr'))"

definition io_lift :: "exn + 'a \<Rightarrow> 'a io" where
  "io_lift r tr = (r, tr)"

definition io_read :: "(event list \<Rightarrow> 'a) \<Rightarrow> 'a io" where
  "io_read f tr = (Inr (f tr), tr)"

definition io_call :: "event \<Rightarrow> (event list \<Rightarrow> exn + 'a) \<Rightarrow> 'a io" where
  "io_call ev answer tr = (answer tr, tr @ [ev])"

section \<open>Data\<close>

record credentials =
  valid :: bool
  expired :: bool
  refresh_token :: bool

datatype service = Service

text \<open>A message resource of the mail API in \<open>format='full'\<close>, as the program reads it.\<close>

record part =
  mime_type :: string
  part_body_data :: "string option"

record gmail_message =
  headers :: "(string \<times> string) list"
  payload_parts :: "part list option"
  payload_body_data :: "string option"

record email =
  email_id :: string
  subject :: string
  sender :: string
  date :: string
  body :: string

record classification =
  category :: string
  priority :: string
  summary :: string

text \<open>
  A row of the store query, as the program reads it: the \<open>select\<close> of the properties
  \<open>Root Cause\<close> and \<open>Priority\<close> (\<open>None\<close> when the property or its select is absent) and
  the \<open>title\<close> array of the property \<open>Title\<close>. A select object carries an id and a
  colour beside its name, so it is a non-empty dictionary and truthy.
\<close>

datatype select_obj = Select (select_name: "string option")

datatype text_obj = Text (text_content: "string option")

datatype title_item = TitleItem (item_text: "text_obj option")

record page =
  root_cause_select :: "select_obj option"
  priority_select :: "select_obj option"
  title_array :: "title_item list"

record digest_summary =
  total :: nat
  by_category :: "(string \<times> nat) list"
  by_priority :: "(string \<times> nat) list"
  high_priority :: "string list"

datatype summary_dict = SummaryError string | Summary digest_summary

record run_result =
  emails_found :: nat
  emails_processed :: nat
  digest_sent :: bool
  error :: "string option"

section \<open>Environment\<close>

text \<open>
  The configuration read at import, and what lies outside the program.
  \<^item> \<open>openai_api_key\<close>, \<open>notion_database_id\<close>, \<open>slack_webhook_url\<close>: the environment
    variables; \<open>notion_token\<close>: \<open>NOTION_API_KEY or NOTION_TOKEN\<close>. A client object exists
    when its key is truthy.
  \<^item> \<open>path_exists\<close>, \<open>load_token\<close>, \<open>refresh\<close>, \<open>run_flow\<close>, \<open>write_token\<close>,
    \<open>build_service\<close>: the file checks and the calls of the authorisation libraries.
  \<^item> \<open>time_ago_timestamp\<close>: \<open>int((datetime.now(timezone.utc) - timedelta(hours=h)).timestamp())\<close>,
    which raises when the date arithmetic overflows; \<open>strftime\<close>: \<open>datetime.now().strftime(f)\<close>.
  \<^item> \<open>gmail_list\<close>: the list call for a query, answering the ids under \<open>messages\<close> if
    that key is present (every entry of the list carries its id); \<open>gmail_get\<close>: the get
    call for an id; \<open>b64_utf8_decode\<close>: \<open>base64.urlsafe_b64decode(d).decode('utf-8', errors='ignore')\<close>.
  \<^item> \<open>chat_completion\<close>: the completion call for a prompt, answering
    \<open>response.choices[0].message.content\<close>, which may be \<open>None\<close>.
  \<^item> \<open>notion_pages_create\<close>, \<open>notion_databases_query\<close>: the two calls of the store, the
    query answering the rows under \<open>results\<close> if that key is present.
  \<^item> \<open>requests_post\<close>: the post to the webhook, answering the status code.
  \<^item> \<open>stdout_unicode\<close>: the standard output has a Unicode encoding (UTF-8 and the like)
    and takes every text; otherwise it is taken to encode ASCII only, and
    \<open>stdout_error\<close> is the exception it raises for a text it cannot encode.
\<close>

record env =
  openai_api_key :: "string option"
  notion_token :: "string option"
  notion_database_id :: "string option"
  slack_webhook_url :: "string option"
  path_exists :: "event list \<Rightarrow> string \<Rightarrow> bool"
  load_token :: "event list \<Rightarrow> exn + credentials"
  refresh :: "event list \<Rightarrow> exn + unit"
  run_flow :: "event list \<Rightarrow> exn + credentials"
  write_token :: "event list \<Rightarrow> exn + unit"
  build_service :: "event list \<Rightarrow> exn + service"
  time_ago_timestamp :: "event list \<Rightarrow> int \<Rightarrow> exn + int"
  strftime :: "event list \<Rightarrow> string \<Rightarrow> string"
  gmail_list :: "event list \<Rightarrow> string \<Rightarrow> exn + string list option"
  gmail_get :: "event list \<Rightarrow> string \<Rightarrow> exn + gmail_message"
  b64_utf8_decode :: "string \<Rightarrow> exn + string"
  chat_completion :: "event list \<Rightarrow> string \<Rightarrow> exn + string option"
  notion_pages_create :: "event list \<Rightarrow> string \<Rightarrow> page_properties \<Rightarrow> exn + unit"
  notion_databases_query :: "event list \<Rightarrow> string \<Rightarrow> exn + page list option"
  requests_post :: "event list \<Rightarrow> string \<Rightarrow> string \<Rightarrow> exn + int"
  stdout_unicode :: bool
  stdout_error :: "string \<Rightarrow> exn"

text \<open>
  \<open>print(text)\<close>. It is no call that leaves the process and adds nothing to the log. It
  raises \<open>UnicodeEncodeError\<close> when the standard output cannot encode the text: this is
  assumed to be the only way a print fails.
\<close>

definition io_print :: "env \<Rightarrow> string \<Rightarrow> unit io" where
  "io_print env content =
     (if stdout_unicode env \<or> ascii_only content then io_return ()
      else io_raise (stdout_error env content))"

section \<open>Mail source\<close>

definition authenticate_gmail :: "env \<Rightarrow> service io" where
  "authenticate_gmail env =
     io_bind (io_read (\<lambda>tr. path_exists env tr ''token.json'')) (\<lambda>has_token.
     io_bind (if has_token
              then io_try (io_bind (io_call TokenLoad (load_token env)) (\<lambda>c. io_return (Some c)))
                          (\<lambda>e. io_return None)
              else io_return None) (\<lambda>creds.
     io_bind (if creds = None \<or> \<not> valid (the creds)
              then
                io_bind (if creds \<noteq> None \<and> expired (the creds) \<and> refresh_token (the creds)
                         then io_try (io_bind (io_call TokenRefresh (refresh env))
                                        (\<lambda>_. io_return creds))
                                     (\<lambda>e. io_return None)
                         else io_return creds) (\<lambda>creds.
                io_bind (if creds = None
                         then
                           io_bind (io_read (\<lambda>tr. path_exists env tr ''credentials.json''))
                             (\<lambda>has_credentials.
                           if \<not> has_credentials
                           then io_raise (FileNotFoundError
                             ''credentials.json not found. Please download from Google Cloud Console.'')
                           else io_bind (io_call AuthFlow (run_flow env)) (\<lambda>c. io_return (Some c)))
                         else io_return creds) (\<lambda>creds.
                io_bind (io_call TokenWrite (write_token env)) (\<lambda>_. io_return creds)))
              else io_return creds) (\<lambda>creds.
     io_call GmailBuild (build_service env))))"

text \<open>\<open>next((h['value'] for h in headers if h['name'].lower() == name), default)\<close>\<close>

definition header_value :: "(string \<times> string) list \<Rightarrow> string \<Rightarrow> string \<Rightarrow> string" where
  "header_value hs name dflt =
     (case find (\<lambda>h. lower (fst h) = name) hs of None \<Rightarrow> dflt | Some h \<Rightarrow> snd h)"

definition extract_body :: "env \<Rightarrow> gmail_message \<Rightarrow> exn + string" where
  "extract_body env message =
     (case payload_parts message of
        Some parts \<Rightarrow>
          (case find (\<lambda>p. mime_type p = ''text/plain'' \<and> part_body_data p \<noteq> None) parts of
             Some p \<Rightarrow> b64_utf8_decode env (the (part_body_data p))
           | None \<Rightarrow> Inr [])
      | None \<Rightarrow>
          (case payload_body_data message of
             Some d \<Rightarrow> b64_utf8_decode env d
           | None \<Rightarrow> Inr []))"

text \<open>The body of the inner \<open>try\<close>: one message fetched and read.\<close>

definition extract_email :: "env \<Rightarrow> string \<Rightarrow> email io" where
  "extract_email env msg_id =
     io_bind (io_call (GmailGet msg_id) (\<lambda>tr. gmail_get env tr msg_id)) (\<lambda>message.
     io_bind (io_lift (extract_body env message)) (\<lambda>body_text.
     io_return \<lparr>email_id = msg_id,
                 subject = header_value (headers message) ''subject'' ''No Subject'',
                 sender = header_value (headers message) ''from'' ''Unknown'',
                 date = header_value (headers message) ''date'' [],
                 body = take 500 body_text\<rparr>))"

fun fetch_loop :: "env \<Rightarrow> string list \<Rightarrow> email list \<Rightarrow> email list io" where
  "fetch_loop env [] emails = io_return emails"
| "fetch_loop env (msg # messages) emails =
     io_bind (io_try (io_bind (extract_email env msg) (\<lambda>e. io_return (emails @ [e])))
                     (\<lambda>e. io_return emails))
             (\<lambda>emails'. fetch_loop env messages emails')"

definition fetch_customer_emails :: "env \<Rightarrow> service \<Rightarrow> int \<Rightarrow> email list io" where
  "fetch_customer_emails env service hours_back =
     io_try
       (io_bind (io_read (\<lambda>tr. time_ago_timestamp env tr hours_back)) (\<lambda>ts.
        io_bind (io_lift ts) (\<lambda>ts.
        let query = ''after:'' @ str_int ts in
        io_bind (io_call (GmailList query) (\<lambda>tr. gmail_list env tr query)) (\<lambda>results.
        let messages = (case results of None \<Rightarrow> [] | Some ms \<Rightarrow> ms) in
        fetch_loop env messages []))))
       (\<lambda>e. io_return [])"

section \<open>Classifier\<close>

definition build_prompt :: "string \<Rightarrow> string \<Rightarrow> string" where
  "build_prompt subject_text body_text = join [newline]
     [''You are an IT maintenance assistant. Analyze this email and classify the issue.'',
      [],
      ''Email Subject: '' @ subject_text,
      ''Email Body: '' @ take 500 body_text,
      [],
      ''Classify into ONE category:'',
      ''- Hardware (physical equipment problems)'',
      ''- Software (application/program issues)  '',
      ''- Network (connectivity problems)'',
      ''- User Error (user mistakes)'',
      ''- Security (security threats)'',
      ''- Other'',
      [],
      ''Priority: High, Medium, or Low'',
      [],
      ''Respond EXACTLY like this:'',
      ''Category: [category]'',
      ''Priority: [priority]'',
      ''Summary: [one sentence summary]'']"

definition parse_field :: "string \<Rightarrow> string \<Rightarrow> string \<Rightarrow> string" where
  "parse_field label result dflt =
     (case re_search label result of Some g \<Rightarrow> strip g | None \<Rightarrow> dflt)"

definition classify_issue :: "env \<Rightarrow> string \<Rightarrow> string \<Rightarrow> classification io" where
  "classify_issue env subject_text body_text =
     (if \<not> truthy (openai_api_key env)
      then io_return \<lparr>category = ''Other'', priority = ''Medium'', summary = subject_text\<rparr>
      else
        let prompt = build_prompt subject_text body_text in
        io_try
          (io_bind (io_call (ChatCompletion prompt) (\<lambda>tr. chat_completion env tr prompt))
             (\<lambda>content.
           io_bind (case content of
                      None \<Rightarrow> io_raise (AttributeError ''NoneType object has no attribute strip'')
                    | Some c \<Rightarrow> io_return (strip c)) (\<lambda>result.
           io_return \<lparr>category = parse_field ''Category:'' result ''Other'',
                       priority = parse_field ''Priority:'' result ''Medium'',
                       summary = parse_field ''Summary:'' result subject_text\<rparr>)))
          (\<lambda>e. io_return \<lparr>category = ''Other'', priority = ''Medium'', summary = subject_text\<rparr>))"

section \<open>Record store\<close>

definition notion_configured :: "env \<Rightarrow> bool" where
  "notion_configured env = (truthy (notion_token env) \<and> truthy (notion_database_id env))"

text \<open>The property bag of the create call.\<close>

definition build_properties :: "email \<Rightarrow> classification \<Rightarrow> string \<Rightarrow> page_properties" where
  "build_properties email cls today =
     (let subject_text = take 100 (or_default (subject email) ''No Subject'');
          body_text = take 2000 (or_default (body email) ''No content'')
      in \<lparr>prop_title = subject_text, prop_description = body_text,
          prop_root_cause = category cls, prop_priority = priority cls,
          prop_status = ''New'', prop_date = today\<rparr>)"

text \<open>
  The print of success stands inside the \<open>try\<close>, after the create call; the print of
  the handler stands in the \<open>except\<close> clause, where nothing catches what it raises.
\<close>

definition add_to_notion :: "env \<Rightarrow> email \<Rightarrow> classification \<Rightarrow> bool io" where
  "add_to_notion env email cls =
     (if \<not> notion_configured env
      then io_bind (io_print env ''Notion not configured'') (\<lambda>_. io_return False)
      else
        io_try
          (let database_id = the (notion_database_id env) in
           io_bind (io_read (\<lambda>tr. strftime env tr ''%Y-%m-%d'')) (\<lambda>today.
           let properties = build_properties email cls today in
           io_bind (io_call (NotionCreate database_id properties)
                      (\<lambda>tr. notion_pages_create env tr database_id properties)) (\<lambda>_.
           io_bind (io_print env (check_mark @ '' Added to Notion: '' @
                      take 50 (prop_title properties) @ ''...'')) (\<lambda>_.
           io_return True))))
          (\<lambda>e. io_bind (io_print env (cross_mark @ '' Error adding to Notion: '' @ str_exn e))
                 (\<lambda>_. io_return False)))"

text \<open>
  A Python \<open>dict\<close> keeps its keys in insertion order: \<open>AList.update\<close> replaces the value of
  a key where it stands and appends a new key at the end.
\<close>

definition dict_get :: "(string \<times> nat) list \<Rightarrow> string \<Rightarrow> nat \<Rightarrow> nat" where
  "dict_get d k dflt = (case map_of d k of None \<Rightarrow> dflt | Some v \<Rightarrow> v)"

definition increment :: "(string \<times> nat) list \<Rightarrow> string \<Rightarrow> (string \<times> nat) list" where
  "increment d k = AList.update k (dict_get d k 0 + 1) d"

text \<open>One round of the loop over the rows.\<close>

definition count_page :: "digest_summary \<Rightarrow> page \<Rightarrow> digest_summary" where
  "count_page s p =
     (let s1 = (case root_cause_select p of
                  None \<Rightarrow> s
                | Some root_cause_obj \<Rightarrow>
                    let category = (case select_name root_cause_obj of
                                      None \<Rightarrow> ''Other'' | Some n \<Rightarrow> n)
                    in s\<lparr>by_category := increment (by_category s) category\<rparr>)
      in case priority_select p of
           None \<Rightarrow> s1
         | Some priority_obj \<Rightarrow>
             let priority = (case select_name priority_obj of
                               None \<Rightarrow> ''Medium'' | Some n \<Rightarrow> n);
                 s2 = s1\<lparr>by_priority := increment (by_priority s1) priority\<rparr>
             in if priority = ''High''
                then (case title_array p of
                        [] \<Rightarrow> s2
                      | item # _ \<Rightarrow>
                          let title = (case item_text item of
                                         None \<Rightarrow> ''No title''
                                       | Some t \<Rightarrow> (case text_content t of
                                                      None \<Rightarrow> ''No title''
                                                    | Some c \<Rightarrow> c))
                          in s2\<lparr>high_priority := high_priority s2 @ [title]\<rparr>)
                else s2)"

fun count_pages :: "digest_summary \<Rightarrow> page list \<Rightarrow> digest_summary" where
  "count_pages s [] = s"
| "count_pages s (p # ps) = count_pages (count_page s p) ps"

text \<open>The summary dictionary set up from the rows and filled by the loop.\<close>

definition summary_of_results :: "page list \<Rightarrow> digest_summary" where
  "summary_of_results results =
     count_pages \<lparr>total = length results, by_category = [], by_priority = [],
                  high_priority = []\<rparr> results"

definition get_notion_summary :: "env \<Rightarrow> summary_dict io" where
  "get_notion_summary env =
     (if \<not> notion_configured env then io_return (SummaryError ''Notion not configured'')
      else
        io_try
          (let database_id = the (notion_database_id env) in
           io_bind (io_call (NotionQuery database_id)
                      (\<lambda>tr. notion_databases_query env tr database_id)) (\<lambda>response.
           let results = (case response of None \<Rightarrow> [] | Some rs \<Rightarrow> rs) in
           io_return (Summary (summary_of_results results))))
          (\<lambda>e. io_bind (io_print env (cross_mark @ '' Error getting Notion summary: '' @
                          str_exn e))
                 (\<lambda>_. io_return (SummaryError (str_exn e)))))"

section \<open>Notifier\<close>

definition count_lines :: "(string \<times> nat) list \<Rightarrow> string list" where
  "count_lines d = map (\<lambda>(k, n). bullet_mark @ '' '' @ k @ '': '' @ str_nat n) d"

definition count_text :: "(string \<times> nat) list \<Rightarrow> string" where
  "count_text d =
     (if count_lines d = [] then bullet_mark @ '' None'' else join [newline] (count_lines d))"

definition high_priority_lines :: "digest_summary \<Rightarrow> string list" where
  "high_priority_lines s = map (\<lambda>item. red_mark @ '' '' @ item) (take 5 (high_priority s))"

definition high_priority_text :: "digest_summary \<Rightarrow> string" where
  "high_priority_text s =
     (if high_priority s \<noteq> [] then join [newline] (high_priority_lines s)
      else check_mark @ '' No high priority issues'')"

definition digest_message :: "digest_summary \<Rightarrow> string" where
  "digest_message s = join [newline]
     [chart_mark @ '' *Daily Maintenance Report*'',
      [],
      ''*Total Issues:* '' @ str_nat (total s),
      [],
      ''*By Category:*'',
      count_text (by_category s),
      [],
      ''*By Priority:*'',
      count_text (by_priority s),
      [],
      ''*High Priority Items:*'',
      high_priority_text s,
      []]"

definition send_slack_digest :: "env \<Rightarrow> summary_dict \<Rightarrow> bool io" where
  "send_slack_digest env summary_arg =
     (if \<not> truthy (slack_webhook_url env)
      then io_bind (io_print env ''Slack webhook not configured'') (\<lambda>_. io_return False)
      else case summary_arg of
        SummaryError _ \<Rightarrow> io_return False
      | Summary s \<Rightarrow>
          let url = the (slack_webhook_url env); message = digest_message s in
          io_try
            (io_bind (io_call (SlackPost url message) (\<lambda>tr. requests_post env tr url message))
               (\<lambda>status_code.
             if status_code = 200
             then io_bind (io_print env (check_mark @ '' Slack digest sent successfully!''))
                    (\<lambda>_. io_return True)
             else io_bind (io_print env (cross_mark @ '' Slack webhook failed with status '' @
                             str_int status_code))
                    (\<lambda>_. io_return False)))
            (\<lambda>e. io_bind (io_print env (cross_mark @ '' Error sending Slack message: '' @
                            str_exn e))
                   (\<lambda>_. io_return False)))"

section \<open>Pipeline runner\<close>

text \<open>The prints before the first \<open>try\<close>: the run has reached step 1 when they are done.\<close>

definition pipeline_banner :: "env \<Rightarrow> unit io" where
  "pipeline_banner env =
     io_bind (io_print env ([newline] @ replicate 60 CHR ''='')) (\<lambda>_.
     io_bind (io_print env (rocket_mark @ '' STARTING AI MAINTENANCE PIPELINE'')) (\<lambda>_.
     io_bind (io_print env (replicate 60 CHR ''='' @ [newline])) (\<lambda>_.
     io_print env (mail_mark @ '' Step 1: Fetching emails from Gmail...''))))"

text \<open>Step 1, the body of the first \<open>try\<close>.\<close>

definition fetch_step :: "env \<Rightarrow> int \<Rightarrow> email list io" where
  "fetch_step env hours_back =
     io_bind (authenticate_gmail env) (\<lambda>service.
     io_bind (fetch_customer_emails env service hours_back) (\<lambda>emails.
     io_bind (io_print env (check_mark @ '' Found '' @ str_nat (length emails) @ '' emails'' @
                [newline])) (\<lambda>_.
     io_return emails)))"

text \<open>
  Step 2, the loop over the fetched messages with its counter; \<open>found\<close> is the number of
  all fetched messages and \<open>i\<close> the number of the message, both for the prints.
\<close>

fun classify_and_store :: "env \<Rightarrow> nat \<Rightarrow> nat \<Rightarrow> email list \<Rightarrow> nat \<Rightarrow> nat io" where
  "classify_and_store env found i [] processed = io_return processed"
| "classify_and_store env found i (email # emails) processed =
     io_bind (io_print env (''   Processing '' @ str_nat i @ ''/'' @ str_nat found @ '': '' @
                take 50 (subject email) @ ''...'')) (\<lambda>_.
     io_bind (io_try
                (io_bind (classify_issue env (subject email) (body email)) (\<lambda>cls.
                 io_bind (io_print env (''   '' @ arrow_mark @ '' Classified as: '' @
                            category cls @ '' ('' @ priority cls @ '')'')) (\<lambda>_.
                 io_bind (add_to_notion env email cls) (\<lambda>added.
                 io_return (if added then processed + 1 else processed)))))
                (\<lambda>e. io_bind (io_print env (''   '' @ cross_mark @ '' Error: '' @ str_exn e))
                       (\<lambda>_. io_return processed)))
             (\<lambda>processed'. classify_and_store env found (i + 1) emails processed'))"

text \<open>Step 3, the second \<open>try\<close> around summary and digest.\<close>

definition digest_step :: "env \<Rightarrow> bool io" where
  "digest_step env =
     io_try
       (io_bind (get_notion_summary env) (\<lambda>s.
        case s of
          Summary _ \<Rightarrow> send_slack_digest env s
        | SummaryError _ \<Rightarrow>
            io_bind (io_print env (warning_mark @ '' Could not generate summary''))
              (\<lambda>_. io_return False)))
       (\<lambda>e. io_bind (io_print env (cross_mark @ '' Error with digest: '' @ str_exn e))
              (\<lambda>_. io_return False))"

definition run_full_pipeline :: "env \<Rightarrow> int \<Rightarrow> run_result io" where
  "run_full_pipeline env hours_back =
     io_bind (pipeline_banner env) (\<lambda>_.
     io_bind (io_catch (fetch_step env hours_back)) (\<lambda>fetched.
     case fetched of
       Inl e \<Rightarrow>
         io_bind (io_print env (cross_mark @ '' Gmail error: '' @ str_exn e @ [newline])) (\<lambda>_.
         io_return \<lparr>emails_found = 0, emails_processed = 0, digest_sent = False,
                    error = Some (str_exn e)\<rparr>)
     | Inr emails \<Rightarrow>
         io_bind (io_print env (robot_mark @ '' Step 2: Classifying '' @
                    str_nat (length emails) @ '' issues with AI...'')) (\<lambda>_.
         io_bind (classify_and_store env (length emails) 1 emails 0) (\<lambda>processed.
         io_bind (io_print env ([newline] @ check_mark @ '' Successfully processed '' @
                    str_nat processed @ ''/'' @ str_nat (length emails) @ '' issues'' @
                    [newline])) (\<lambda>_.
         io_bind (io_print env (chart_mark @ '' Step 3: Generating Slack digest...'')) (\<lambda>_.
         io_bind (digest_step env) (\<lambda>sent.
         io_bind (io_print env ([newline] @ replicate 60 CHR ''='')) (\<lambda>_.
         io_bind (io_print env (check_mark @ '' PIPELINE COMPLETE!'')) (\<lambda>_.
         io_bind (io_print env (replicate 60 CHR ''='' @ [newline])) (\<lambda>_.
         io_return \<lparr>emails_found = length emails, emails_processed = processed,
                    digest_sent = sent, error = None\<rparr>))))))))))"

section \<open>Service boundary\<close>

text \<open>
  The value under the key \<open>hours\<close> of the request's JSON object. A number is what
  \<open>isinstance(hours, (int, float))\<close> accepts: a \<open>bool\<close>, an \<open>int\<close>, or a \<open>float\<close>, which is
  a finite number or one of the three constants the JSON reader of Python accepts.
\<close>

datatype number = PyBool bool | PyInt int | PyFloat real | PyNaN | PyInfinity | PyNegInfinity

datatype json = Number number | NotNumber

fun less_than :: "number \<Rightarrow> int \<Rightarrow> bool" where
  "less_than (PyBool b) k = ((if b then 1 else 0) < k)"
| "less_than (PyInt i) k = (i < k)"
| "less_than (PyFloat x) k = (x < of_int k)"
| "less_than PyNaN k = False"
| "less_than PyInfinity k = False"
| "less_than PyNegInfinity k = True"

fun greater_than :: "number \<Rightarrow> int \<Rightarrow> bool" where
  "greater_than (PyBool b) k = ((if b then 1 else 0) > k)"
| "greater_than (PyInt i) k = (i > k)"
| "greater_than (PyFloat x) k = (x > of_int k)"
| "greater_than PyNaN k = False"
| "greater_than PyInfinity k = True"
| "greater_than PyNegInfinity k = False"

fun py_int :: "number \<Rightarrow> exn + int" where
  "py_int (PyBool b) = Inr (if b then 1 else 0)"
| "py_int (PyInt i) = Inr i"
| "py_int (PyFloat x) = Inr (if 0 \<le> x then \<lfloor>x\<rfloor> else \<lceil>x\<rceil>)"
| "py_int PyNaN = Inl (ValueError ''cannot convert float NaN to integer'')"
| "py_int PyInfinity = Inl (OverflowError ''cannot convert float infinity to integer'')"
| "py_int PyNegInfinity = Inl (OverflowError ''cannot convert float infinity to integer'')"

record last_run_info =
  timestamp :: "string option"
  run_status :: string
  last_processed :: nat

record response =
  status :: nat
  success :: bool
  error_message :: "string option"
  result :: "run_result option"

text \<open>
  \<open>run_pipeline\<close> of the web application, on a request whose JSON object holds \<open>hours\<close>
  (\<open>None\<close>: the key is absent and 24 is taken). It returns the response and the new value
  of the global \<open>last_run_info\<close>. The orchestrator is the imported one, so the handler
  for \<open>NotImplementedError\<close>, which only the stand-ins of a failed import raise, has no
  case here.
\<close>

definition run_pipeline :: "env \<Rightarrow> last_run_info \<Rightarrow> json option \<Rightarrow> (response \<times> last_run_info) io" where
  "run_pipeline env info hours_field =
     io_try
       (let hours = (case hours_field of None \<Rightarrow> Number (PyInt 24) | Some v \<Rightarrow> v) in
        case hours of
          NotNumber \<Rightarrow>
            io_return (\<lparr>status = 400, success = False,
                        error_message = Some ''Hours must be between 1 and 168'',
                        result = None\<rparr>, info)
        | Number n \<Rightarrow>
            if less_than n 1 \<or> greater_than n 168
            then io_return (\<lparr>status = 400, success = False,
                             error_message = Some ''Hours must be between 1 and 168'',
                             result = None\<rparr>, info)
            else
              io_bind (io_lift (py_int n)) (\<lambda>h.
              io_bind (run_full_pipeline env h) (\<lambda>r.
              io_bind (io_read (\<lambda>tr. strftime env tr ''%Y-%m-%d %H:%M:%S'')) (\<lambda>now.
              io_return (\<lparr>status = 200, success = True, error_message = None,
                          result = Some r\<rparr>,
                         \<lparr>timestamp = Some now, run_status = ''Success'',
                          last_processed = emails_processed r\<rparr>)))))
       (\<lambda>e. io_return (\<lparr>status = 500, success = False,
                         error_message = Some (''Pipeline failed: '' @ str_exn e),
                         result = None\<rparr>,
                        info\<lparr>run_status := ''Error: '' @ str_exn e\<rparr>))"

section \<open>Notions used to state the properties\<close>

text \<open>A computation that returns a value from every log, whatever the environment answers.\<close>

definition never_raises :: "'a io \<Rightarrow> bool" where
  "never_raises m = (\<forall>tr. \<exists>x tr'. m tr = (Inr x, tr'))"



text \<open>A label occurs in a text, without regard to case.\<close>

fun label_found :: "string \<Rightarrow> string \<Rightarrow> bool" where
  "label_found label [] = (label = [])"
| "label_found label (c # cs) =
     (lower (take (length label) (c # cs)) = lower label \<or> label_found label cs)"


fun is_auth_event :: "event \<Rightarrow> bool" where
  "is_auth_event TokenLoad = True"
| "is_auth_event TokenRefresh = True"
| "is_auth_event AuthFlow = True"
| "is_auth_event TokenWrite = True"
| "is_auth_event GmailBuild = True"
| "is_auth_event ev = False"



text \<open>Category, priority and title of a row: what a row counts for.\<close>

definition page_category :: "page \<Rightarrow> string option" where
  "page_category p =
     (case root_cause_select p of
        None \<Rightarrow> None
      | Some obj \<Rightarrow> Some (case select_name obj of None \<Rightarrow> ''Other'' | Some n \<Rightarrow> n))"

definition page_priority :: "page \<Rightarrow> string option" where
  "page_priority p =
     (case priority_select p of
        None \<Rightarrow> None
      | Some obj \<Rightarrow> Some (case select_name obj of None \<Rightarrow> ''Medium'' | Some n \<Rightarrow> n))"

definition page_title :: "page \<Rightarrow> string option" where
  "page_title p =
     (case title_array p of
        [] \<Rightarrow> None
      | item # _ \<Rightarrow>
          Some (case item_text item of
                  None \<Rightarrow> ''No title''
                | Some t \<Rightarrow> (case text_content t of None \<Rightarrow> ''No title'' | Some c \<Rightarrow> c)))"

definition high_titles :: "page list \<Rightarrow> string list" where
  "high_titles rows =
     List.map_filter page_title (filter (\<lambda>p. page_priority p = Some ''High'') rows)"

definition rows_with_category :: "page list \<Rightarrow> string \<Rightarrow> nat" where
  "rows_with_category rows c = length (filter (\<lambda>p. page_category p = Some c) rows)"

definition rows_with_priority :: "page list \<Rightarrow> string \<Rightarrow> nat" where
  "rows_with_priority rows q = length (filter (\<lambda>p. page_priority p = Some q) rows)"

definition exact_counts :: "(string \<times> nat) list \<Rightarrow> (string \<Rightarrow> nat) \<Rightarrow> bool" where
  "exact_counts d count =
     (distinct (map fst d) \<and>
      (\<forall>k. map_of d k = (if count k = 0 then None else Some (count k))))"

text \<open>The value lies in the closed range from 1 to 168.\<close>

fun in_range :: "number \<Rightarrow> bool" where
  "in_range (PyBool b) = b"
| "in_range (PyInt i) = (1 \<le> i \<and> i \<le> 168)"
| "in_range (PyFloat x) = (1 \<le> x \<and> x \<le> 168)"
| "in_range PyNaN = False"
| "in_range PyInfinity = False"
| "in_range PyNegInfinity = False"

section \<open>Sample environments\<close>

definition sample_message :: gmail_message where
  "sample_message =
     \<lparr>headers = [(''From'', ''ann@example.org''), (''SUBJECT'', ''Printer is down'')],
      payload_parts = Some [\<lparr>mime_type = ''text/html'', part_body_data = Some ''PGI-''\<rparr>,
                            \<lparr>mime_type = ''text/plain'', part_body_data = Some ''cGFwZXI=''\<rparr>],
      payload_body_data = None\<rparr>"

definition sample_env :: env where
  "sample_env =
     \<lparr>openai_api_key = Some ''sk-test'',
      notion_token = Some ''secret'',
      notion_database_id = Some ''db1'',
      slack_webhook_url = Some ''https://hooks.example.org/T1'',
      path_exists = (\<lambda>tr p. True),
      load_token = (\<lambda>tr. Inr \<lparr>valid = True, expired = False, refresh_token = True\<rparr>),
      refresh = (\<lambda>tr. Inr ()),
      run_flow = (\<lambda>tr. Inr \<lparr>valid = True, expired = False, refresh_token = True\<rparr>),
      write_token = (\<lambda>tr. Inr ()),
      build_service = (\<lambda>tr. Inr Service),
      time_ago_timestamp = (\<lambda>tr h. Inr (604800 - 3600 * h)),
      strftime = (\<lambda>tr f. ''2024-05-01''),
      gmail_list = (\<lambda>tr q. Inr (Some [''m1'', ''m2'', ''m3''])),
      gmail_get = (\<lambda>tr i. if i = ''m2'' then Inl (HttpError ''404'') else Inr sample_message),
      b64_utf8_decode = (\<lambda>d. if d = ''cGFwZXI='' then Inr ''paper'' else Inl (ValueError ''Incorrect padding'')),
      chat_completion = (\<lambda>tr p. Inr (Some ''Category: Network'')),
      notion_pages_create = (\<lambda>tr d p. Inr ()),
      notion_databases_query = (\<lambda>tr d. Inr (Some [])),
      requests_post = (\<lambda>tr u m. Inr 200),
      stdout_unicode = True,
      stdout_error = (\<lambda>t. UnicodeEncodeError ''ordinal not in range(128)'')\<rparr>"

definition sample_email :: email where
  "sample_email =
     \<lparr>email_id = ''m1'', subject = ''Printer is down'', sender = ''ann@example.org'',
      date = ''Wed, 1 May 2024 09:00:00 +0000'', body = ''paper''\<rparr>"

definition sample_classification :: classification where
  "sample_classification =
     \<lparr>category = ''Hardware'', priority = ''High'', summary = ''The printer is down.''\<rparr>"

definition sample_summary :: digest_summary where
  "sample_summary =
     \<lparr>total = 2, by_category = [(''Hardware'', 2)], by_priority = [(''High'', 1), (''Low'', 1)],
      high_priority = [''Printer is down'']\<rparr>"

definition env_store_unconfigured :: env where
  "env_store_unconfigured = sample_env\<lparr>notion_database_id := None\<rparr>"

definition env_store_fails :: env where
  "env_store_fails =
     sample_env\<lparr>notion_pages_create := (\<lambda>tr d p. Inl (Exception ''validation_error''))\<rparr>"

definition env_no_webhook :: env where
  "env_no_webhook = sample_env\<lparr>slack_webhook_url := Some []\<rparr>"

definition env_webhook_rejects :: env where
  "env_webhook_rejects = sample_env\<lparr>requests_post := (\<lambda>tr u m. Inr 404)\<rparr>"

definition env_webhook_down :: env where
  "env_webhook_down = sample_env\<lparr>requests_post := (\<lambda>tr u m. Inl (Exception ''timed out''))\<rparr>"

definition env_ascii_stdout :: env where
  "env_ascii_stdout = sample_env\<lparr>stdout_unicode := False\<rparr>"

definition env_no_credentials :: env where
  "env_no_credentials = sample_env\<lparr>path_exists := (\<lambda>tr p. False)\<rparr>"



text \<open>Every event a computation adds to the log satisfies a predicate.\<close>

definition emits :: "(event \<Rightarrow> bool) \<Rightarrow> 'a io \<Rightarrow> bool" where
  "emits P m = (\<forall>tr. \<exists>evs. snd (m tr) = tr @ evs \<and> list_all P evs)"

definition high_row :: "string \<Rightarrow> page" where
  "high_row t =
     \<lparr>root_cause_select = Some (Select (Some ''Hardware'')),
      priority_select = Some (Select (Some ''High'')),
      title_array = [TitleItem (Some (Text (Some t)))]\<rparr>"

definition blank_row :: page where
  "blank_row =
     \<lparr>root_cause_select = None, priority_select = None,
      title_array = [TitleItem (Some (Text (Some ''Untriaged'')))]\<rparr>"

definition low_row :: page where
  "low_row =
     \<lparr>root_cause_select = Some (Select (Some ''Network'')),
      priority_select = Some (Select (Some ''Low'')),
      title_array = [TitleItem (Some (Text (Some ''Slow wifi'')))]\<rparr>"

definition six_high_rows :: "page list" where
  "six_high_rows = map high_row [''t1'', ''t2'', ''t3'', ''t4'', ''t5'', ''t6'']"

definition env_six_high :: env where
  "env_six_high = sample_env\<lparr>notion_databases_query := (\<lambda>tr d. Inr (Some six_high_rows))\<rparr>"

definition env_three_rows :: env where
  "env_three_rows =
     sample_env\<lparr>notion_databases_query :=
       (\<lambda>tr d. Inr (Some [high_row ''Printer is down'', low_row, high_row ''Server room hot'']))\<rparr>"




definition sample_info :: last_run_info where
  "sample_info = \<lparr>timestamp = None, run_status = ''Never run'', last_processed = 0\<rparr>"


section \<open>Exceptions contained\<close>

lemma never_raises_return: "never_raises (io_return x)"
  by (simp add: never_raises_def io_return_def)

lemma never_raises_bind:
  assumes "never_raises m" and "\<And>x. never_raises (f x)"
  shows "never_raises (io_bind m f)"
proof -
  have "\<exists>y tr''. io_bind m f tr = (Inr y, tr'')" for tr
  proof -
    from assms(1) obtain x tr' where "m tr = (Inr x, tr')"
      unfolding never_raises_def by blast
    moreover from assms(2) obtain y tr'' where "f x tr' = (Inr y, tr'')"
      unfolding never_raises_def by blast
    ultimately show ?thesis by (simp add: io_bind_def)
  qed
  then show ?thesis by (simp add: never_raises_def)
qed

lemma never_raises_try:
  assumes "\<And>e. never_raises (h e)"
  shows "never_raises (io_try m h)"
proof -
  have "\<exists>y tr''. io_try m h tr = (Inr y, tr'')" for tr
  proof (cases "m tr")
    case (Pair r tr')
    show ?thesis
    proof (cases r)
      case (Inl e)
      from assms obtain y tr'' where "h e tr' = (Inr y, tr'')"
        unfolding never_raises_def by blast
      with Pair Inl show ?thesis by (simp add: io_try_def)
    next
      case (Inr x)
      with Pair show ?thesis by (simp add: io_try_def)
    qed
  qed
  then show ?thesis by (simp add: never_raises_def)
qed

lemma never_raises_catch: "never_raises (io_catch m)"
  by (simp add: never_raises_def io_catch_def split: prod.split)

lemma never_raisesD: "never_raises m \<Longrightarrow> \<exists>x tr'. m tr = (Inr x, tr')"
  by (simp add: never_raises_def)

section \<open>Printing\<close>

lemma ascii_only_append: "ascii_only (a @ b) \<longleftrightarrow> ascii_only a \<and> ascii_only b"
  by (simp add: ascii_only_def)

lemma marks_not_ascii:
  "\<not> ascii_only chart_mark" "\<not> ascii_only check_mark" "\<not> ascii_only rocket_mark"
  "\<not> ascii_only mail_mark" "\<not> ascii_only cross_mark" "\<not> ascii_only robot_mark"
  "\<not> ascii_only arrow_mark" "\<not> ascii_only warning_mark"
  by (simp_all add: ascii_only_def chart_mark_def check_mark_def rocket_mark_def mail_mark_def
      cross_mark_def robot_mark_def arrow_mark_def warning_mark_def)

lemma ascii_only_rule:
  "ascii_only (newline # replicate n CHR ''='')" "ascii_only (replicate n CHR ''='' @ [newline])"
  by (simp_all add: ascii_only_def list_all_iff newline_def)

lemma io_print_unicode: "stdout_unicode env \<Longrightarrow> io_print env content = io_return ()"
  by (simp add: io_print_def)

lemma io_print_log: "snd (io_print env content tr) = tr"
  by (simp add: io_print_def io_return_def io_raise_def)

lemma never_raises_print: "stdout_unicode env \<Longrightarrow> never_raises (io_print env content)"
  by (simp add: io_print_unicode never_raises_return)

lemma pipeline_banner_unicode:
  "stdout_unicode env \<Longrightarrow> pipeline_banner env tr = (Inr (), tr)"
  by (simp add: pipeline_banner_def io_print_unicode io_bind_def io_return_def)

lemma pipeline_banner_ascii:
  "\<not> stdout_unicode env \<Longrightarrow>
     pipeline_banner env tr =
       (Inl (stdout_error env (rocket_mark @ '' STARTING AI MAINTENANCE PIPELINE'')), tr)"
  by (simp add: pipeline_banner_def io_print_def io_bind_def io_return_def io_raise_def
      ascii_only_append marks_not_ascii ascii_only_rule)

lemma pipeline_banner_printed:
  "fst (pipeline_banner env tr) = Inr () \<longleftrightarrow> stdout_unicode env"
  using pipeline_banner_unicode [of env tr] pipeline_banner_ascii [of env tr]
  by (cases "stdout_unicode env") simp_all

section \<open>Exceptions contained on a standard output that takes the prints\<close>


lemma never_raises_classify_and_store:
  "stdout_unicode env \<Longrightarrow> never_raises (classify_and_store env found i emails processed)"
  by (induction emails arbitrary: i processed)
     (simp_all add: never_raises_return never_raises_bind never_raises_try never_raises_print)

lemma never_raises_digest_step: "stdout_unicode env \<Longrightarrow> never_raises (digest_step env)"
  unfolding digest_step_def
  by (simp add: never_raises_try never_raises_bind never_raises_print never_raises_return)

lemma never_raises_fetch_customer_emails:
  "never_raises (fetch_customer_emails env service hours_back)"
  unfolding fetch_customer_emails_def by (simp add: never_raises_try never_raises_return)

lemma never_raises_pipeline_banner: "stdout_unicode env \<Longrightarrow> never_raises (pipeline_banner env)"
  by (simp add: never_raises_def pipeline_banner_unicode)

lemma never_raises_run_full_pipeline:
  assumes "stdout_unicode env"
  shows "never_raises (run_full_pipeline env hours_back)"
  unfolding run_full_pipeline_def
  by (intro never_raises_bind never_raises_catch never_raises_pipeline_banner assms)
     (auto split: sum.split intro!: never_raises_bind never_raises_return never_raises_print
        never_raises_classify_and_store never_raises_digest_step assms)

section \<open>Pipeline runner: the run and the standard output\<close>

lemma run_full_pipeline_returns_on_unicode_stdout:
  "stdout_unicode env \<Longrightarrow> \<exists>r tr'. run_full_pipeline env hours_back tr = (Inr r, tr')"
  using never_raises_run_full_pipeline by (rule never_raisesD)

lemma run_full_pipeline_raises_on_ascii_stdout:
  "\<not> stdout_unicode env \<Longrightarrow>
     run_full_pipeline env hours_back tr =
       (Inl (stdout_error env (rocket_mark @ '' STARTING AI MAINTENANCE PIPELINE'')), tr)"
  by (simp add: run_full_pipeline_def io_bind_def pipeline_banner_ascii)

text \<open>
  C2. On a standard output with a Unicode encoding the run returns a result whatever the
  steps answer or raise (\<open>run_full_pipeline_returns_on_unicode_stdout\<close>). The claim fails
  on a standard output that cannot encode the pictographs of the messages: the second
  print of the run, the line with the rocket, stands outside every \<open>try\<close> and raises
  \<open>UnicodeEncodeError\<close> to the caller, before the mail is touched.
\<close>

theorem run_full_pipeline_raises_to_caller:
  "run_full_pipeline env_ascii_stdout 24 [] =
     (Inl (UnicodeEncodeError ''ordinal not in range(128)''), [])"
proof -
  have "\<not> stdout_unicode env_ascii_stdout"
    by (simp add: env_ascii_stdout_def)
  then show ?thesis
    using run_full_pipeline_raises_on_ascii_stdout [of env_ascii_stdout 24 "[]"]
    by (simp add: env_ascii_stdout_def sample_env_def)
qed

section \<open>Record store: append\<close>

lemma add_to_notion_unconfigured:
  "\<not> notion_configured env \<Longrightarrow> add_to_notion env email cls tr = (Inr False, tr)"
  by (simp add: add_to_notion_def io_print_def io_bind_def io_return_def ascii_only_def)

lemma add_to_notion_on_unicode_stdout:
  assumes "stdout_unicode env" and "notion_configured env"
  shows "let database_id = the (notion_database_id env);
             properties = build_properties email cls (strftime env tr ''%Y-%m-%d'');
             outcome = notion_pages_create env tr database_id properties
         in add_to_notion env email cls tr =
              (Inr (case outcome of Inl e \<Rightarrow> False | Inr u \<Rightarrow> True),
               tr @ [NotionCreate database_id properties])"
  using assms
  by (simp add: add_to_notion_def io_print_unicode io_return_def io_try_def io_bind_def
      io_read_def io_call_def Let_def split: sum.split)

lemma add_to_notion_on_ascii_stdout:
  assumes "\<not> stdout_unicode env" and "notion_configured env"
  shows "\<exists>e. add_to_notion env email cls tr =
           (Inl e, tr @ [NotionCreate (the (notion_database_id env))
                          (build_properties email cls (strftime env tr ''%Y-%m-%d''))])"
  using assms
  by (simp add: add_to_notion_def io_print_def io_return_def io_raise_def io_try_def
      io_bind_def io_read_def io_call_def Let_def ascii_only_append marks_not_ascii
      split: sum.split)


lemma add_to_notion_examples:
  "add_to_notion env_store_unconfigured sample_email sample_classification [] = (Inr False, [])"
  "fst (add_to_notion env_store_fails sample_email sample_classification []) = Inr False"
  "fst (add_to_notion sample_env sample_email sample_classification []) = Inr True"
proof -
  have "\<not> notion_configured env_store_unconfigured"
    by (simp add: env_store_unconfigured_def sample_env_def notion_configured_def truthy_def)
  then show "add_to_notion env_store_unconfigured sample_email sample_classification [] =
      (Inr False, [])"
    by (rule add_to_notion_unconfigured)
  have "stdout_unicode env_store_fails" "notion_configured env_store_fails"
    by (simp_all add: env_store_fails_def sample_env_def notion_configured_def truthy_def)
  then show "fst (add_to_notion env_store_fails sample_email sample_classification []) =
      Inr False"
    using add_to_notion_on_unicode_stdout
      [of env_store_fails sample_email sample_classification "[]"]
    by (simp add: Let_def env_store_fails_def)
  have "stdout_unicode sample_env" "notion_configured sample_env"
    by (simp_all add: sample_env_def notion_configured_def truthy_def)
  then show "fst (add_to_notion sample_env sample_email sample_classification []) = Inr True"
    using add_to_notion_on_unicode_stdout [of sample_env sample_email sample_classification "[]"]
    by (simp add: Let_def sample_env_def)
qed

section \<open>Notifier\<close>

lemma send_slack_digest_not_sent:
  "\<not> truthy (slack_webhook_url env) \<Longrightarrow> send_slack_digest env sd tr = (Inr False, tr)"
  "send_slack_digest env (SummaryError m) tr = (Inr False, tr)"
  by (simp_all add: send_slack_digest_def io_print_def io_bind_def io_return_def ascii_only_def)

lemma send_slack_digest_log:
  "truthy (slack_webhook_url env) \<Longrightarrow>
     snd (send_slack_digest env (Summary s) tr) =
       tr @ [SlackPost (the (slack_webhook_url env)) (digest_message s)]"
  by (simp add: send_slack_digest_def io_print_def io_return_def io_raise_def io_try_def
      io_bind_def io_call_def Let_def split: sum.split)

lemma send_slack_digest_on_unicode_stdout:
  assumes "stdout_unicode env" and "truthy (slack_webhook_url env)"
  shows "let url = the (slack_webhook_url env); message = digest_message s
         in send_slack_digest env (Summary s) tr =
              (Inr (requests_post env tr url message = Inr 200), tr @ [SlackPost url message])"
  using assms
  by (simp add: send_slack_digest_def io_print_unicode io_return_def io_try_def io_bind_def
      io_call_def Let_def split: sum.split)

text \<open>
  C9. Without a webhook target and on an error summary \<open>send_slack_digest\<close> returns
  \<open>False\<close> and posts nothing (\<open>send_slack_digest_not_sent\<close>); otherwise it posts exactly
  once (\<open>send_slack_digest_log\<close>), and on a standard output with a Unicode encoding it
  returns \<open>True\<close> exactly when the status is 200 (\<open>send_slack_digest_on_unicode_stdout\<close>).
  The claim fails on a standard output that cannot encode the pictographs: after the
  post has been answered with 200 the print of success raises inside the \<open>try\<close>, the
  handler catches it, and the handler's own print raises out of the function.
\<close>

theorem send_slack_digest_raises_to_caller:
  "send_slack_digest env_ascii_stdout (Summary sample_summary) [] =
     (Inl (UnicodeEncodeError ''ordinal not in range(128)''),
      [SlackPost ''https://hooks.example.org/T1'' (digest_message sample_summary)])"
  by (simp add: send_slack_digest_def env_ascii_stdout_def sample_env_def truthy_def
      io_print_def io_return_def io_raise_def io_try_def io_bind_def io_call_def Let_def
      ascii_only_append marks_not_ascii)

lemma send_slack_digest_examples:
  "send_slack_digest env_no_webhook (Summary sample_summary) [] = (Inr False, [])"
  "send_slack_digest sample_env (Summary sample_summary) [] =
     (Inr True, [SlackPost ''https://hooks.example.org/T1'' (digest_message sample_summary)])"
  "fst (send_slack_digest env_webhook_rejects (Summary sample_summary) []) = Inr False"
  "fst (send_slack_digest env_webhook_down (Summary sample_summary) []) = Inr False"
proof -
  have "\<not> truthy (slack_webhook_url env_no_webhook)"
    by (simp add: env_no_webhook_def truthy_def)
  then show "send_slack_digest env_no_webhook (Summary sample_summary) [] = (Inr False, [])"
    by (rule send_slack_digest_not_sent)
  have "stdout_unicode sample_env" "truthy (slack_webhook_url sample_env)"
    by (simp_all add: sample_env_def truthy_def)
  then show "send_slack_digest sample_env (Summary sample_summary) [] =
     (Inr True, [SlackPost ''https://hooks.example.org/T1'' (digest_message sample_summary)])"
    using send_slack_digest_on_unicode_stdout [of sample_env sample_summary "[]"]
    by (simp add: Let_def sample_env_def)
  have "stdout_unicode env_webhook_rejects" "truthy (slack_webhook_url env_webhook_rejects)"
    by (simp_all add: env_webhook_rejects_def sample_env_def truthy_def)
  then show "fst (send_slack_digest env_webhook_rejects (Summary sample_summary) []) =
      Inr False"
    using send_slack_digest_on_unicode_stdout [of env_webhook_rejects sample_summary "[]"]
    by (simp add: Let_def env_webhook_rejects_def)
  have "stdout_unicode env_webhook_down" "truthy (slack_webhook_url env_webhook_down)"
    by (simp_all add: env_webhook_down_def sample_env_def truthy_def)
  then show "fst (send_slack_digest env_webhook_down (Summary sample_summary) []) = Inr False"
    using send_slack_digest_on_unicode_stdout [of env_webhook_down sample_summary "[]"]
    by (simp add: Let_def env_webhook_down_def)
qed

section \<open>What a computation adds to the log\<close>

lemma emits_return: "emits P (io_return x)"
  by (simp add: emits_def io_return_def)

lemma emits_raise: "emits P (io_raise e)"
  by (simp add: emits_def io_raise_def)

lemma emits_read: "emits P (io_read f)"
  by (simp add: emits_def io_read_def)

lemma emits_call: "P ev \<Longrightarrow> emits P (io_call ev answer)"
  by (simp add: emits_def io_call_def)

lemma emits_bind:
  assumes "emits P m" and "\<And>x. emits P (f x)"
  shows "emits P (io_bind m f)"
proof -
  have "\<exists>evs. snd (io_bind m f tr) = tr @ evs \<and> list_all P evs" for tr
  proof (cases "m tr")
    case (Pair r tr')
    from assms(1) Pair obtain evs where evs: "tr' = tr @ evs" "list_all P evs"
      unfolding emits_def by (metis snd_conv)
    show ?thesis
    proof (cases r)
      case (Inl e)
      with Pair evs show ?thesis by (simp add: io_bind_def)
    next
      case (Inr x)
      from assms(2) obtain evs' where "snd (f x tr') = tr' @ evs'" "list_all P evs'"
        unfolding emits_def by blast
      with Pair Inr evs have "snd (io_bind m f tr) = tr @ (evs @ evs')" "list_all P (evs @ evs')"
        by (simp_all add: io_bind_def)
      then show ?thesis by blast
    qed
  qed
  then show ?thesis by (simp add: emits_def)
qed

lemma emits_try:
  assumes "emits P m" and "\<And>e. emits P (h e)"
  shows "emits P (io_try m h)"
proof -
  have "\<exists>evs. snd (io_try m h tr) = tr @ evs \<and> list_all P evs" for tr
  proof (cases "m tr")
    case (Pair r tr')
    from assms(1) Pair obtain evs where evs: "tr' = tr @ evs" "list_all P evs"
      unfolding emits_def by (metis snd_conv)
    show ?thesis
    proof (cases r)
      case (Inr x)
      with Pair evs show ?thesis by (simp add: io_try_def)
    next
      case (Inl e)
      from assms(2) obtain evs' where "snd (h e tr') = tr' @ evs'" "list_all P evs'"
        unfolding emits_def by blast
      with Pair Inl evs have "snd (io_try m h tr) = tr @ (evs @ evs')" "list_all P (evs @ evs')"
        by (simp_all add: io_try_def)
      then show ?thesis by blast
    qed
  qed
  then show ?thesis by (simp add: emits_def)
qed

lemma emits_print: "emits P (io_print env content)"
  by (simp add: emits_def io_print_log)

lemma emits_authenticate_gmail: "emits is_auth_event (authenticate_gmail env)"
  unfolding authenticate_gmail_def
  by (intro emits_bind emits_read)
     (auto intro!: emits_bind emits_try emits_call emits_return emits_raise emits_read)

section \<open>Pipeline runner: a failed first step ends the run\<close>

lemma fetch_step_raises:
  assumes "stdout_unicode env" and "fst (fetch_step env hours_back tr) = Inl e"
  shows "\<exists>evs. fetch_step env hours_back tr = (Inl e, tr @ evs) \<and> list_all is_auth_event evs"
proof (cases "authenticate_gmail env tr")
  case (Pair r tr')
  from emits_authenticate_gmail [of env] Pair
  obtain evs where evs: "tr' = tr @ evs" "list_all is_auth_event evs"
    unfolding emits_def by (metis snd_conv)
  show ?thesis
  proof (cases r)
    case (Inl e')
    with Pair assms evs show ?thesis by (simp add: fetch_step_def io_bind_def)
  next
    case (Inr service)
    from never_raises_fetch_customer_emails [of env service hours_back]
    obtain emails tr'' where "fetch_customer_emails env service hours_back tr' = (Inr emails, tr'')"
      unfolding never_raises_def by blast
    with Pair Inr assms show ?thesis
      by (simp add: fetch_step_def io_bind_def io_print_unicode io_return_def)
  qed
qed

text \<open>
  C3. If the run reaches its first step (the prints before it are done) and the
  authenticate-and-fetch step raises, the run returns at once a result with zero found,
  zero processed, no digest sent and the text of the exception as its error. The log of
  the whole run then holds, after what it held before, only events of the
  authentication: no classification, store, summary or webhook call is made.
\<close>

theorem fetch_step_failure_aborts_run:
  assumes "fst (pipeline_banner env tr) = Inr ()"
    and "fst (fetch_step env hours_back tr) = Inl e"
  shows "\<exists>evs. run_full_pipeline env hours_back tr =
           (Inr \<lparr>emails_found = 0, emails_processed = 0, digest_sent = False,
                 error = Some (str_exn e)\<rparr>, tr @ evs) \<and>
         list_all is_auth_event evs"
proof -
  from assms(1) have unicode: "stdout_unicode env"
    by (simp add: pipeline_banner_printed)
  from fetch_step_raises [OF unicode assms(2)] obtain evs
    where "fetch_step env hours_back tr = (Inl e, tr @ evs)" "list_all is_auth_event evs"
    by blast
  then show ?thesis
    using unicode
    by (simp add: run_full_pipeline_def pipeline_banner_unicode io_print_unicode io_bind_def
        io_catch_def io_return_def)
qed

theorem fetch_step_failure_aborts_run_witness:
  "fst (pipeline_banner env_no_credentials []) = Inr () \<and>
   fst (fetch_step env_no_credentials 24 []) =
     Inl (FileNotFoundError
       ''credentials.json not found. Please download from Google Cloud Console.'') \<and>
   (\<exists>evs. run_full_pipeline env_no_credentials 24 [] =
      (Inr \<lparr>emails_found = 0, emails_processed = 0, digest_sent = False,
            error = Some
              ''credentials.json not found. Please download from Google Cloud Console.''\<rparr>,
       [] @ evs) \<and>
      list_all is_auth_event evs)"
proof -
  have b: "fst (pipeline_banner env_no_credentials []) = Inr ()"
    by (simp add: pipeline_banner_printed env_no_credentials_def sample_env_def)
  have h: "fst (fetch_step env_no_credentials 24 []) =
     Inl (FileNotFoundError
       ''credentials.json not found. Please download from Google Cloud Console.'')"
    by (simp add: fetch_step_def authenticate_gmail_def env_no_credentials_def sample_env_def
        io_bind_def io_read_def io_return_def io_raise_def)
  show ?thesis using b h fetch_step_failure_aborts_run [OF b h] by simp
qed

section \<open>Evaluating text\<close>

lemmas text_eval =
  is_space_def lower_char_def lower_def strip_def newline_def char_of_def bit_0
  match_here_def dot_plus_def

section \<open>Mail source: failures stay inside the fetch\<close>









section \<open>Record store: the summary\<close>

lemma by_category_count_page:
  "by_category (count_page s p) =
     (case page_category p of None \<Rightarrow> by_category s | Some c \<Rightarrow> increment (by_category s) c)"
  by (simp add: count_page_def page_category_def Let_def split: option.split list.split)

lemma by_priority_count_page:
  "by_priority (count_page s p) =
     (case page_priority p of None \<Rightarrow> by_priority s | Some q \<Rightarrow> increment (by_priority s) q)"
  by (simp add: count_page_def page_priority_def Let_def split: option.split list.split)

lemma high_priority_count_page:
  "high_priority (count_page s p) =
     high_priority s @
       (if page_priority p = Some ''High''
        then (case page_title p of None \<Rightarrow> [] | Some t \<Rightarrow> [t]) else [])"
  by (simp add: count_page_def page_priority_def page_title_def Let_def
      split: option.split list.split)

lemma total_count_page: "total (count_page s p) = total s"
  by (simp add: count_page_def Let_def split: option.split list.split)

lemma total_count_pages: "total (count_pages s rows) = total s"
  by (induction rows arbitrary: s) (simp_all add: total_count_page)

lemma by_category_count_pages:
  "by_category (count_pages s rows) =
     foldl increment (by_category s) (List.map_filter page_category rows)"
  by (induction rows arbitrary: s)
     (simp_all add: List.map_filter_simps by_category_count_page split: option.split)

lemma by_priority_count_pages:
  "by_priority (count_pages s rows) =
     foldl increment (by_priority s) (List.map_filter page_priority rows)"
  by (induction rows arbitrary: s)
     (simp_all add: List.map_filter_simps by_priority_count_page split: option.split)

lemma high_priority_count_pages:
  "high_priority (count_pages s rows) = high_priority s @ high_titles rows"
  by (induction rows arbitrary: s)
     (simp_all add: high_titles_def List.map_filter_simps high_priority_count_page
        split: option.split)

lemma dict_get_increment:
  "dict_get (increment d k) c 0 = dict_get d c 0 + (if k = c then 1 else 0)"
  by (simp add: increment_def dict_get_def update_conv')

lemma map_of_increment_None:
  "map_of (increment d k) c = None \<longleftrightarrow> map_of d c = None \<and> c \<noteq> k"
  by (simp add: increment_def update_conv')

lemma dict_get_foldl_increment:
  "dict_get (foldl increment d ks) c 0 = dict_get d c 0 + count_list ks c"
  by (induction ks arbitrary: d) (simp_all add: dict_get_increment)

lemma map_of_foldl_increment_None:
  "map_of (foldl increment d ks) c = None \<longleftrightarrow> map_of d c = None \<and> c \<notin> set ks"
  by (induction ks arbitrary: d) (auto simp: map_of_increment_None)

lemma distinct_foldl_increment:
  "distinct (map fst d) \<Longrightarrow> distinct (map fst (foldl increment d ks))"
  by (induction ks arbitrary: d) (simp_all add: increment_def distinct_update)

lemma map_of_counted:
  "map_of (foldl increment [] ks) c =
     (if count_list ks c = 0 then None else Some (count_list ks c))"
proof (cases "c \<in> set ks")
  case False
  then show ?thesis
    using map_of_foldl_increment_None [of "[]" ks c] by (simp add: count_list_0_iff)
next
  case True
  then obtain v where v: "map_of (foldl increment [] ks) c = Some v"
    using map_of_foldl_increment_None [of "[]" ks c] by auto
  then have "v = count_list ks c"
    using dict_get_foldl_increment [of "[]" ks c] by (simp add: dict_get_def)
  with v True show ?thesis by (simp add: count_list_0_iff)
qed

lemma count_list_map_filter:
  "count_list (List.map_filter f xs) c = length (filter (\<lambda>x. f x = Some c) xs)"
  by (induction xs) (auto simp: List.map_filter_simps split: option.split)

lemma exact_counts_foldl_increment:
  "exact_counts (foldl increment [] (List.map_filter f rows))
     (\<lambda>c. length (filter (\<lambda>p. f p = Some c) rows))"
  by (simp add: exact_counts_def distinct_foldl_increment map_of_counted count_list_map_filter)

lemma sum_increment: "sum_list (map snd (increment d k)) = sum_list (map snd d) + 1"
proof (induction d)
  case Nil
  show ?case by (simp add: increment_def dict_get_def)
next
  case (Cons p ps)
  show ?case
  proof (cases "fst p = k")
    case True
    then show ?thesis by (cases p) (simp add: increment_def dict_get_def)
  next
    case False
    then have "increment (p # ps) k = p # increment ps k"
      by (cases p) (simp add: increment_def dict_get_def)
    with Cons.IH show ?thesis by simp
  qed
qed

lemma sum_foldl_increment:
  "sum_list (map snd (foldl increment d ks)) = sum_list (map snd d) + length ks"
  by (induction ks arbitrary: d) (simp_all add: sum_increment)

lemma length_map_filter:
  "length (List.map_filter f xs) = length (filter (\<lambda>x. f x \<noteq> None) xs)"
  by (simp add: List.map_filter_def)

lemma summary_of_results_fields:
  "total (summary_of_results rows) = length rows"
  "by_category (summary_of_results rows) =
     foldl increment [] (List.map_filter page_category rows)"
  "by_priority (summary_of_results rows) =
     foldl increment [] (List.map_filter page_priority rows)"
  "high_priority (summary_of_results rows) = high_titles rows"
  by (simp_all add: summary_of_results_def total_count_pages by_category_count_pages
      by_priority_count_pages high_priority_count_pages)

lemma get_notion_summary_queried:
  assumes "notion_configured env"
    and "notion_databases_query env tr (the (notion_database_id env)) = Inr (Some rows)"
  shows "get_notion_summary env tr =
           (Inr (Summary (summary_of_results rows)),
            tr @ [NotionQuery (the (notion_database_id env))])"
  using assms
  by (simp add: get_notion_summary_def io_try_def io_bind_def io_call_def io_return_def Let_def)

lemma get_notion_summary_origin:
  assumes "fst (get_notion_summary env tr) = Inr (Summary s)"
  shows "\<exists>rows. s = summary_of_results rows"
  using assms
  by (auto simp: get_notion_summary_def io_try_def io_bind_def io_call_def io_return_def
      io_print_def io_raise_def Let_def split: if_splits sum.splits)

lemma digest_message_of_rows:
  "digest_message (summary_of_results rows) = join [newline]
     [chart_mark @ '' *Daily Maintenance Report*'',
      [],
      ''*Total Issues:* '' @ str_nat (length rows),
      [],
      ''*By Category:*'',
      count_text (by_category (summary_of_results rows)),
      [],
      ''*By Priority:*'',
      count_text (by_priority (summary_of_results rows)),
      [],
      ''*High Priority Items:*'',
      (if high_titles rows \<noteq> []
       then join [newline] (map (\<lambda>item. red_mark @ '' '' @ item) (take 5 (high_titles rows)))
       else check_mark @ '' No high priority issues''),
      []]"
  unfolding digest_message_def high_priority_text_def high_priority_lines_def
  by (simp only: summary_of_results_fields)

text \<open>
  C4, as the program has it. When the store query returns the rows, the summary has the
  number of rows as its total, maps each category and each priority to the exact number
  of rows that have it (and holds no other key), and lists the titles of all the rows of
  priority High, in the order of the rows. The list of the summary is not cut. The cap
  is the notifier's: the text it posts for this summary shows, under its heading of the
  High items, the first five titles of the list, one line each, and no other title.
\<close>

theorem summary_counts_and_titles:
  assumes "notion_configured env"
    and "notion_databases_query env tr (the (notion_database_id env)) = Inr (Some rows)"
  shows "\<exists>s. get_notion_summary env tr =
                (Inr (Summary s), tr @ [NotionQuery (the (notion_database_id env))]) \<and>
              total s = length rows \<and>
              exact_counts (by_category s) (rows_with_category rows) \<and>
              exact_counts (by_priority s) (rows_with_priority rows) \<and>
              high_priority s = high_titles rows \<and>
              (truthy (slack_webhook_url env) \<longrightarrow>
                 snd (send_slack_digest env (Summary s) tr') =
                   tr' @ [SlackPost (the (slack_webhook_url env)) (join [newline]
                     [chart_mark @ '' *Daily Maintenance Report*'',
                      [],
                      ''*Total Issues:* '' @ str_nat (length rows),
                      [],
                      ''*By Category:*'',
                      count_text (by_category s),
                      [],
                      ''*By Priority:*'',
                      count_text (by_priority s),
                      [],
                      ''*High Priority Items:*'',
                      (if high_titles rows \<noteq> []
                       then join [newline]
                              (map (\<lambda>item. red_mark @ '' '' @ item) (take 5 (high_titles rows)))
                       else check_mark @ '' No high priority issues''),
                      []])])"
proof -
  have "exact_counts (by_category (summary_of_results rows)) (rows_with_category rows)"
    unfolding summary_of_results_fields rows_with_category_def
    by (rule exact_counts_foldl_increment)
  moreover
  have "exact_counts (by_priority (summary_of_results rows)) (rows_with_priority rows)"
    unfolding summary_of_results_fields rows_with_priority_def
    by (rule exact_counts_foldl_increment)
  moreover
  have "snd (send_slack_digest env (Summary (summary_of_results rows)) tr') =
      tr' @ [SlackPost (the (slack_webhook_url env)) (join [newline]
        [chart_mark @ '' *Daily Maintenance Report*'',
         [],
         ''*Total Issues:* '' @ str_nat (length rows),
         [],
         ''*By Category:*'',
         count_text (by_category (summary_of_results rows)),
         [],
         ''*By Priority:*'',
         count_text (by_priority (summary_of_results rows)),
         [],
         ''*High Priority Items:*'',
         (if high_titles rows \<noteq> []
          then join [newline]
                 (map (\<lambda>item. red_mark @ '' '' @ item) (take 5 (high_titles rows)))
          else check_mark @ '' No high priority issues''),
         []])]"
    if "truthy (slack_webhook_url env)"
    using send_slack_digest_log [OF that, of "summary_of_results rows" tr']
    by (simp only: digest_message_of_rows)
  ultimately show ?thesis
    using get_notion_summary_queried [OF assms]
    by (intro exI [of _ "summary_of_results rows"]) (simp add: summary_of_results_fields)
qed

lemma six_high_titles:
  "high_titles six_high_rows = [''t1'', ''t2'', ''t3'', ''t4'', ''t5'', ''t6'']"
  by (simp add: high_titles_def six_high_rows_def high_row_def page_priority_def
      page_title_def List.map_filter_simps)

theorem summary_counts_and_titles_witness:
  "notion_configured env_six_high \<and>
   notion_databases_query env_six_high [] (the (notion_database_id env_six_high)) =
     Inr (Some six_high_rows) \<and>
   truthy (slack_webhook_url env_six_high) \<and>
   (\<exists>s. get_notion_summary env_six_high [] = (Inr (Summary s), [NotionQuery ''db1'']) \<and>
        total s = 6 \<and>
        high_priority s = [''t1'', ''t2'', ''t3'', ''t4'', ''t5'', ''t6''] \<and>
        snd (send_slack_digest env_six_high (Summary s) []) =
          [SlackPost ''https://hooks.example.org/T1'' (join [newline]
             [chart_mark @ '' *Daily Maintenance Report*'',
              [],
              ''*Total Issues:* '' @ str_nat 6,
              [],
              ''*By Category:*'',
              count_text (by_category s),
              [],
              ''*By Priority:*'',
              count_text (by_priority s),
              [],
              ''*High Priority Items:*'',
              join [newline]
                (map (\<lambda>item. red_mark @ '' '' @ item) [''t1'', ''t2'', ''t3'', ''t4'', ''t5'']),
              []])])"
proof -
  have a: "notion_configured env_six_high"
    by (simp add: env_six_high_def sample_env_def notion_configured_def truthy_def)
  have b: "notion_databases_query env_six_high [] (the (notion_database_id env_six_high)) =
     Inr (Some six_high_rows)"
    by (simp add: env_six_high_def)
  have c: "the (notion_database_id env_six_high) = ''db1''"
    "the (slack_webhook_url env_six_high) = ''https://hooks.example.org/T1''"
    "truthy (slack_webhook_url env_six_high)"
    by (simp_all add: env_six_high_def sample_env_def truthy_def)
  have d: "length six_high_rows = 6"
    by (simp add: six_high_rows_def)
  from summary_counts_and_titles [OF a b, of "[]"] obtain s where s:
    "get_notion_summary env_six_high [] =
       (Inr (Summary s), [] @ [NotionQuery (the (notion_database_id env_six_high))])"
    "total s = length six_high_rows"
    "high_priority s = high_titles six_high_rows"
    "truthy (slack_webhook_url env_six_high) \<longrightarrow>
       snd (send_slack_digest env_six_high (Summary s) []) =
         [] @ [SlackPost (the (slack_webhook_url env_six_high)) (join [newline]
           [chart_mark @ '' *Daily Maintenance Report*'',
            [],
            ''*Total Issues:* '' @ str_nat (length six_high_rows),
            [],
            ''*By Category:*'',
            count_text (by_category s),
            [],
            ''*By Priority:*'',
            count_text (by_priority s),
            [],
            ''*High Priority Items:*'',
            (if high_titles six_high_rows \<noteq> []
             then join [newline]
                    (map (\<lambda>item. red_mark @ '' '' @ item) (take 5 (high_titles six_high_rows)))
             else check_mark @ '' No high priority issues''),
            []])]"
    by blast
  show ?thesis
    using a b c(3) s
    by (intro conjI exI [of _ s]) (simp_all add: c d six_high_titles)
qed

text \<open>
  C4 as stated fails: six rows of priority High give a summary whose list of High
  titles has six entries.
\<close>

theorem summary_list_cap_counterexample:
  "get_notion_summary env_six_high [] =
     (Inr (Summary (summary_of_results six_high_rows)), [NotionQuery ''db1'']) \<and>
   high_priority (summary_of_results six_high_rows) =
     [''t1'', ''t2'', ''t3'', ''t4'', ''t5'', ''t6''] \<and>
   \<not> length (high_priority (summary_of_results six_high_rows)) \<le> 5"
proof -
  have a: "notion_configured env_six_high"
    by (simp add: env_six_high_def sample_env_def notion_configured_def truthy_def)
  have b: "notion_databases_query env_six_high [] (the (notion_database_id env_six_high)) =
     Inr (Some six_high_rows)"
    by (simp add: env_six_high_def)
  have c: "the (notion_database_id env_six_high) = ''db1''"
    by (simp add: env_six_high_def sample_env_def)
  have d: "high_priority (summary_of_results six_high_rows) =
     [''t1'', ''t2'', ''t3'', ''t4'', ''t5'', ''t6'']"
    by (simp add: summary_of_results_fields six_high_titles)
  show ?thesis
    using get_notion_summary_queried [OF a b] by (simp add: c d)
qed

text \<open>
  C10. The total of a summary is the number of rows. A row without a category select
  adds to the total and to no category count; a row without a priority select adds to no
  priority count and to no entry of the High list. So the category counts add up to the
  number of rows that have a category select, the priority counts to the number of rows
  that have a priority select, and each sum is at most the total.
\<close>

theorem absent_select_is_not_counted:
  "(fst (get_notion_summary env tr) = Inr (Summary s) \<longrightarrow>
      (\<exists>rows. s = summary_of_results rows)) \<and>
   total (summary_of_results rows) = length rows \<and>
   (root_cause_select p = None \<longrightarrow>
      total (summary_of_results (rows1 @ p # rows2)) =
        total (summary_of_results (rows1 @ rows2)) + 1 \<and>
      by_category (summary_of_results (rows1 @ p # rows2)) =
        by_category (summary_of_results (rows1 @ rows2))) \<and>
   (priority_select p = None \<longrightarrow>
      by_priority (summary_of_results (rows1 @ p # rows2)) =
        by_priority (summary_of_results (rows1 @ rows2)) \<and>
      high_priority (summary_of_results (rows1 @ p # rows2)) =
        high_priority (summary_of_results (rows1 @ rows2))) \<and>
   sum_list (map snd (by_category (summary_of_results rows))) =
     length (filter (\<lambda>r. root_cause_select r \<noteq> None) rows) \<and>
   sum_list (map snd (by_priority (summary_of_results rows))) =
     length (filter (\<lambda>r. priority_select r \<noteq> None) rows) \<and>
   sum_list (map snd (by_category (summary_of_results rows))) \<le> total (summary_of_results rows) \<and>
   sum_list (map snd (by_priority (summary_of_results rows))) \<le> total (summary_of_results rows)"
proof -
  have cat: "filter (\<lambda>r. page_category r \<noteq> None) rows =
      filter (\<lambda>r. root_cause_select r \<noteq> None) rows"
    by (rule filter_cong) (auto simp: page_category_def split: option.split)
  have pri: "filter (\<lambda>r. page_priority r \<noteq> None) rows =
      filter (\<lambda>r. priority_select r \<noteq> None) rows"
    by (rule filter_cong) (auto simp: page_priority_def split: option.split)
  have "root_cause_select p = None \<Longrightarrow>
      List.map_filter page_category (rows1 @ p # rows2) =
        List.map_filter page_category (rows1 @ rows2)"
    by (simp add: List.map_filter_def page_category_def)
  moreover have "priority_select p = None \<Longrightarrow>
      List.map_filter page_priority (rows1 @ p # rows2) =
        List.map_filter page_priority (rows1 @ rows2)"
    by (simp add: List.map_filter_def page_priority_def)
  moreover have "priority_select p = None \<Longrightarrow>
      high_titles (rows1 @ p # rows2) = high_titles (rows1 @ rows2)"
    by (simp add: high_titles_def page_priority_def)
  ultimately show ?thesis
    using get_notion_summary_origin [of env tr s] cat pri
    by (simp add: summary_of_results_fields sum_foldl_increment length_map_filter)
qed

theorem absent_select_is_not_counted_witness:
  "root_cause_select blank_row = None \<and> priority_select blank_row = None \<and>
   summary_of_results [high_row ''Printer is down'', blank_row, low_row] =
     \<lparr>total = 3, by_category = [(''Hardware'', 1), (''Network'', 1)],
      by_priority = [(''High'', 1), (''Low'', 1)], high_priority = [''Printer is down'']\<rparr> \<and>
   by_category (summary_of_results [high_row ''Printer is down'', blank_row, low_row]) =
     by_category (summary_of_results [high_row ''Printer is down'', low_row]) \<and>
   by_priority (summary_of_results [high_row ''Printer is down'', blank_row, low_row]) =
     by_priority (summary_of_results [high_row ''Printer is down'', low_row]) \<and>
   fst (get_notion_summary env_three_rows []) =
     Inr (Summary (summary_of_results
       [high_row ''Printer is down'', low_row, high_row ''Server room hot'']))"
proof -
  have a: "root_cause_select blank_row = None" "priority_select blank_row = None"
    by (simp_all add: blank_row_def)
  have b: "summary_of_results [high_row ''Printer is down'', blank_row, low_row] =
     \<lparr>total = 3, by_category = [(''Hardware'', 1), (''Network'', 1)],
      by_priority = [(''High'', 1), (''Low'', 1)], high_priority = [''Printer is down'']\<rparr>"
    by (simp add: summary_of_results_def count_page_def high_row_def blank_row_def low_row_def
        increment_def dict_get_def Let_def)
  have c: "fst (get_notion_summary env_three_rows []) =
     Inr (Summary (summary_of_results
       [high_row ''Printer is down'', low_row, high_row ''Server room hot'']))"
    by (simp add: get_notion_summary_def env_three_rows_def sample_env_def notion_configured_def
        truthy_def io_try_def io_bind_def io_call_def io_return_def)
  show ?thesis
    using a b c
      absent_select_is_not_counted
        [of env_three_rows "[]"
            "summary_of_results
               [high_row ''Printer is down'', low_row, high_row ''Server room hot'']"
            "[high_row ''Printer is down'', blank_row, low_row]"
            blank_row "[high_row ''Printer is down'']" "[low_row]"]
    by simp
qed

section \<open>Classifier\<close>

lemma match_literal_prefix:
  "match_literal lbl s = Some rest \<Longrightarrow> lower (take (length lbl) s) = lower lbl"
  by (induction lbl s arbitrary: rest rule: match_literal.induct)
     (auto simp: lower_def split: if_splits)

lemma re_search_not_found: "\<not> label_found lbl content \<Longrightarrow> re_search lbl content = None"
proof (induction content)
  case Nil
  then show ?case by (cases lbl) (simp_all add: match_here_def)
next
  case (Cons c cs)
  then have "match_literal lbl (c # cs) = None"
    using match_literal_prefix [of lbl "c # cs"] by (cases "match_literal lbl (c # cs)") auto
  with Cons show ?case by (simp add: match_here_def)
qed

lemma label_found_append_left: "label_found lbl content \<Longrightarrow> label_found lbl (u @ content)"
  by (induction u) simp_all

lemma take_within: "n \<le> length xs \<Longrightarrow> take n (xs @ v) = take n xs"
  by simp

lemma label_found_append_right: "label_found lbl content \<Longrightarrow> label_found lbl (content @ v)"
proof (induction content)
  case Nil
  then show ?case by (cases v) simp_all
next
  case (Cons c cs)
  show ?case
  proof (cases "lower (take (length lbl) (c # cs)) = lower lbl")
    case True
    then have "length (take (length lbl) (c # cs)) = length lbl"
      by (metis length_map lower_def)
    then have "min (length (c # cs)) (length lbl) = length lbl"
      by (simp only: length_take)
    then have "length lbl \<le> length (c # cs)"
      by arith
    then have "take (length lbl) ((c # cs) @ v) = take (length lbl) (c # cs)"
      by (rule take_within)
    with True have "lower (take (length lbl) ((c # cs) @ v)) = lower lbl"
      by simp
    then show ?thesis by (simp del: take_Suc_Cons)
  next
    case False
    with Cons show ?thesis by simp
  qed
qed

lemma strip_inside: "\<exists>pre post. content = pre @ strip content @ post"
proof -
  let ?d = "dropWhile is_space content"
  have "content = takeWhile is_space content @ ?d" by simp
  moreover have "?d = strip content @ rev (takeWhile is_space (rev ?d))"
    unfolding strip_def by (metis rev_append rev_rev_ident takeWhile_dropWhile_id)
  ultimately have "content = takeWhile is_space content @ strip content @ rev (takeWhile is_space (rev ?d))"
    by simp
  then show ?thesis by blast
qed

lemma label_found_strip: "label_found lbl (strip content) \<Longrightarrow> label_found lbl content"
proof -
  assume found: "label_found lbl (strip content)"
  obtain pre post where "content = pre @ strip content @ post"
    using strip_inside by blast
  moreover from found have "label_found lbl (pre @ strip content @ post)"
    by (intro label_found_append_left label_found_append_right)
  ultimately show ?thesis by simp
qed

lemma parse_field_not_found:
  assumes "\<not> label_found lbl content"
  shows "parse_field lbl (strip content) dflt = dflt"
proof -
  from assms have "\<not> label_found lbl (strip content)"
    using label_found_strip [of lbl content] by blast
  then have "re_search lbl (strip content) = None"
    by (rule re_search_not_found)
  then show ?thesis by (simp add: parse_field_def)
qed

lemma classify_issue_answered:
  assumes "truthy (openai_api_key env)"
    and "chat_completion env tr (build_prompt subject_text body_text) = Inr (Some content)"
  shows "classify_issue env subject_text body_text tr =
           (Inr \<lparr>category = parse_field ''Category:'' (strip content) ''Other'',
                 priority = parse_field ''Priority:'' (strip content) ''Medium'',
                 summary = parse_field ''Summary:'' (strip content) subject_text\<rparr>,
            tr @ [ChatCompletion (build_prompt subject_text body_text)])"
  using assms
  by (simp add: classify_issue_def io_try_def io_bind_def io_call_def io_return_def Let_def)

lemma only_category_line:
  "parse_field ''Category:'' (strip ''Category: Network'') dflt = ''Network''"
  by (simp add: parse_field_def text_eval)

lemma label_found_only_category:
  "\<not> label_found ''Priority:'' ''Category: Network''"
  "\<not> label_found ''Summary:'' ''Category: Network''"
  by (simp_all add: text_eval)

text \<open>
  C5. For every subject and body, when the model answers with a text, each of the three
  fields is read from that text on its own: a field whose label occurs nowhere in the
  answer takes its default (Other, Medium, the subject) while the other fields are still
  read. The answer \<open>Category: Network\<close> gives category Network, priority Medium and the
  subject as summary.
\<close>

theorem classify_issue_defaults_each_field:
  assumes "truthy (openai_api_key env)"
    and "chat_completion env tr (build_prompt subject_text body_text) = Inr (Some content)"
  shows "\<exists>cls. fst (classify_issue env subject_text body_text tr) = Inr cls \<and>
           category cls = parse_field ''Category:'' (strip content) ''Other'' \<and>
           priority cls = parse_field ''Priority:'' (strip content) ''Medium'' \<and>
           summary cls = parse_field ''Summary:'' (strip content) subject_text \<and>
           (\<not> label_found ''Category:'' content \<longrightarrow> category cls = ''Other'') \<and>
           (\<not> label_found ''Priority:'' content \<longrightarrow> priority cls = ''Medium'') \<and>
           (\<not> label_found ''Summary:'' content \<longrightarrow> summary cls = subject_text) \<and>
           (content = ''Category: Network'' \<longrightarrow>
              cls = \<lparr>category = ''Network'', priority = ''Medium'', summary = subject_text\<rparr>)"
proof -
  let ?cls = "\<lparr>category = parse_field ''Category:'' (strip content) ''Other'',
               priority = parse_field ''Priority:'' (strip content) ''Medium'',
               summary = parse_field ''Summary:'' (strip content) subject_text\<rparr>"
  have returned: "fst (classify_issue env subject_text body_text tr) = Inr ?cls"
    using classify_issue_answered [OF assms] by simp
  have only: "?cls = \<lparr>category = ''Network'', priority = ''Medium'', summary = subject_text\<rparr>"
    if "content = ''Category: Network''"
    unfolding that
    by (simp only: only_category_line parse_field_not_found [OF label_found_only_category(1)]
        parse_field_not_found [OF label_found_only_category(2)])
  show ?thesis
  proof (intro exI [of _ ?cls] conjI impI)
    show "fst (classify_issue env subject_text body_text tr) = Inr ?cls"
      by (rule returned)
    show "category ?cls = ''Other''" if "\<not> label_found ''Category:'' content"
      using parse_field_not_found [OF that] by simp
    show "priority ?cls = ''Medium''" if "\<not> label_found ''Priority:'' content"
      using parse_field_not_found [OF that] by simp
    show "summary ?cls = subject_text" if "\<not> label_found ''Summary:'' content"
      using parse_field_not_found [OF that] by simp
    show "?cls = \<lparr>category = ''Network'', priority = ''Medium'', summary = subject_text\<rparr>"
      if "content = ''Category: Network''"
      using that by (rule only)
  qed simp_all
qed

theorem classify_issue_defaults_each_field_witness:
  "truthy (openai_api_key sample_env) \<and>
   chat_completion sample_env [] (build_prompt ''Printer is down'' ''paper'') =
     Inr (Some ''Category: Network'') \<and>
   \<not> label_found ''Priority:'' ''Category: Network'' \<and>
   \<not> label_found ''Summary:'' ''Category: Network'' \<and>
   fst (classify_issue sample_env ''Printer is down'' ''paper'' []) =
     Inr \<lparr>category = ''Network'', priority = ''Medium'', summary = ''Printer is down''\<rparr>"
proof -
  have a: "truthy (openai_api_key sample_env)"
    by (simp add: sample_env_def truthy_def)
  have b: "chat_completion sample_env [] (build_prompt ''Printer is down'' ''paper'') =
     Inr (Some ''Category: Network'')"
    by (simp add: sample_env_def)
  show ?thesis
    using a b label_found_only_category classify_issue_defaults_each_field [OF a b]
    by auto
qed

subsection \<open>What reaches the store\<close>



lemma parse_field_cases:
  "parse_field lbl content dflt = dflt \<or>
   (\<exists>g. re_search lbl content = Some g \<and> parse_field lbl content dflt = strip g)"
  by (cases "re_search lbl content") (simp_all add: parse_field_def)








section \<open>Service boundary: the range check\<close>

lemma in_range_iff_checks:
  "n \<noteq> PyNaN \<Longrightarrow> in_range n \<longleftrightarrow> \<not> (less_than n 1 \<or> greater_than n 168)"
  by (cases n) auto

lemma in_range_py_int: "in_range n \<Longrightarrow> \<exists>h. py_int n = Inr h \<and> 1 \<le> h \<and> h \<le> 168"
  by (cases n) (auto simp: le_floor_iff floor_le_iff)

lemma run_pipeline_rejects_out_of_range:
  assumes "hours = NotNumber \<or> (\<exists>n. hours = Number n \<and> \<not> in_range n \<and> n \<noteq> PyNaN)"
  shows "run_pipeline env info (Some hours) tr =
           (Inr (\<lparr>status = 400, success = False,
                  error_message = Some ''Hours must be between 1 and 168'',
                  result = None\<rparr>, info), tr)"
proof (cases hours)
  case NotNumber
  then show ?thesis by (simp add: run_pipeline_def io_try_def io_return_def)
next
  case (Number n)
  with assms have "\<not> in_range n" "n \<noteq> PyNaN" by simp_all
  then have "less_than n 1 \<or> greater_than n 168"
    using in_range_iff_checks [of n] by blast
  with Number show ?thesis by (auto simp: run_pipeline_def io_try_def io_return_def)
qed

text \<open>
  C6. A request with a JSON object whose \<open>hours\<close> is no number, or a number below 1 or
  above 168, is answered with status 400 and the validation message before anything is called
  (\<open>run_pipeline_rejects_out_of_range\<close>). The check misses the float NaN, which lies
  outside the range too: NaN passes both comparisons, its conversion to \<open>int\<close> raises,
  and the general handler answers with status 500 and overwrites the status of the last
  run. Nothing has been called by then.
\<close>

theorem run_pipeline_nan_passes_range_check:
  "\<not> in_range PyNaN \<and>
   run_pipeline env info (Some (Number PyNaN)) tr =
     (Inr (\<lparr>status = 500, success = False,
            error_message = Some ''Pipeline failed: cannot convert float NaN to integer'',
            result = None\<rparr>,
           info\<lparr>run_status := ''Error: cannot convert float NaN to integer''\<rparr>), tr)"
  by (simp add: run_pipeline_def io_try_def io_bind_def io_lift_def io_return_def)

lemma run_pipeline_rejections:
  "run_pipeline sample_env sample_info (Some (Number (PyInt 0))) [] =
     (Inr (\<lparr>status = 400, success = False,
            error_message = Some ''Hours must be between 1 and 168'', result = None\<rparr>,
           sample_info), [])"
  "run_pipeline sample_env sample_info (Some (Number (PyFloat 168.5))) [] =
     (Inr (\<lparr>status = 400, success = False,
            error_message = Some ''Hours must be between 1 and 168'', result = None\<rparr>,
           sample_info), [])"
  "run_pipeline sample_env sample_info (Some (Number (PyBool False))) [] =
     (Inr (\<lparr>status = 400, success = False,
            error_message = Some ''Hours must be between 1 and 168'', result = None\<rparr>,
           sample_info), [])"
  "run_pipeline sample_env sample_info (Some NotNumber) [] =
     (Inr (\<lparr>status = 400, success = False,
            error_message = Some ''Hours must be between 1 and 168'', result = None\<rparr>,
           sample_info), [])"
  by (simp_all add: run_pipeline_rejects_out_of_range)

end
